theory Spec2Isabelle
  imports Complex_Main
begin

section \<open>Data model of the data operation layer (step.py)\<close>

text \<open>
  Strings are byte lists. Python integers are \<open>int\<close>. A Python value that may be
  \<open>None\<close> is an \<open>option\<close>. Every \<open>raise\<close> of the source is a value of
  \<open>error\<close>, returned on the left of a sum.
\<close>

datatype DataOperationType =
  INSERT | UPDATE | DELETE | HARD_DELETE | QUERY | UPSERT | ETL_UPSERT | SMART_UPSERT | SELECT

datatype DataOperationStatus = SUCCESS | ROW_FAILURE | JOB_FAILURE | IN_PROGRESS | ABORTED

text \<open>
  \<open>DataOperationResult\<close> is declared with \<open>id: str\<close> and \<open>error: str\<close>, but the
  constructor is a plain \<open>NamedTuple\<close>: it stores whatever it is given, \<open>None\<close>
  included. The fields are therefore optional strings here.
\<close>

record DataOperationResult =
  id :: "string option"
  success :: bool
  error :: "string option"
  created :: "bool option"

record DataOperationJobResult =
  status :: DataOperationStatus
  job_errors :: "string list"
  records_processed :: int
  total_row_errors :: int

datatype error =
    BulkDataException string
  | SOQLQueryException string
  | AssertionError string
  | UnboundLocalError string
  | KeyError string
  | IndexError
  | ValueError string
  | TypeError string

section \<open>Decimal text of integers\<close>

definition digit_char :: "nat \<Rightarrow> char" where
  "digit_char d = ''0123456789'' ! d"

function str_nat :: "nat \<Rightarrow> string" where
  "str_nat n = (if n < 10 then [digit_char n] else str_nat (n div 10) @ [digit_char (n mod 10)])"
  by pat_completeness auto
termination
  by (relation "measure (\<lambda>n. n)") auto

declare str_nat.simps [simp del]

text \<open>\<open>str(i)\<close> and \<open>f"{i}"\<close> for a Python integer.\<close>

definition str_int :: "int \<Rightarrow> string" where
  "str_int i = (if i < 0 then CHR ''-'' # str_nat (nat (- i)) else str_nat (nat i))"

section \<open>The run loop's status report (snowfakery.py)\<close>

definition ERROR_THRESHOLD :: int where
  "ERROR_THRESHOLD = 0"

record UploadStatus =
  batch_size :: int
  sets_being_generated :: int
  sets_queued_to_be_generated :: int
  sets_being_loaded :: int
  sets_queued_for_loading :: int
  sets_finished :: int
  target_count :: int
  min_portion_size :: int
  max_portion_size :: int
  user_max_num_loader_workers :: int
  user_max_num_generator_workers :: int
  elapsed_seconds :: int
  sets_failed :: int
  inprogress_generator_jobs :: int
  inprogress_loader_jobs :: int
  data_gen_free_workers :: int
  shards :: int

text \<open>
  \<open>Snowfakery._report_status\<close>. The snapshot that \<open>get_upload_status\<close> returns is
  the argument; logging has no effect on the result. The function raises
  \<open>BulkDataException\<close> or returns the snapshot.
\<close>

definition report_status :: "UploadStatus \<Rightarrow> error + UploadStatus" where
  "report_status upload_status =
     (if sets_failed upload_status > ERROR_THRESHOLD
      then Inl (BulkDataException
                  (''Errors exceeded threshold: '' @ str_int (sets_failed upload_status)
                     @ '' vs '' @ str_int ERROR_THRESHOLD))
      else Inr upload_status)"

section \<open>Choosing the backend (step.py)\<close>

datatype DataApi = BULK | REST | SMART

datatype api_class = BulkApiDmlOperation | RestApiDmlOperation

text \<open>
  \<open>get_dml_operation\<close>: \<open>api_version\<close> is \<open>float(context.sf.sf_version)\<close>, and
  \<open>api\<close> is the optional \<open>DataApi\<close> argument. The result is the class that is
  instantiated.
\<close>

definition get_dml_operation ::
  "real \<Rightarrow> DataOperationType \<Rightarrow> int \<Rightarrow> DataApi option \<Rightarrow> error + api_class" where
  "get_dml_operation api_version operation volume api =
     (let api1 = (if api_version < 42.0 \<and> api \<noteq> Some BULK then Some BULK else api);
          api2 = (if api1 = Some SMART \<or> api1 = None
                  then (if volume \<ge> 2000 \<or> operation = HARD_DELETE then Some BULK else Some REST)
                  else api1)
      in if api2 = Some BULK then Inr BulkApiDmlOperation
         else if api2 = Some REST then Inr RestApiDmlOperation
         else Inl (AssertionError ''Unknown API''))"

datatype query_class = BulkApiQueryOperation | RestApiQueryOperation

text \<open>
  \<open>get_query_operation\<close>: in smart mode the org's record counts are asked for,
  here the list of \<open>(name, count)\<close> entries of the answer; the dictionary built
  from it keeps the last entry of a name.
\<close>

definition get_query_operation ::
  "real \<Rightarrow> string \<Rightarrow> (string \<times> int) list \<Rightarrow> DataApi option \<Rightarrow> error + query_class" where
  "get_query_operation api_version sobject record_counts api =
     (let api1 = (if api_version < 42.0 \<and> api \<noteq> Some BULK then Some BULK else api);
          api2 = (if api1 = Some SMART \<or> api1 = None
                  then (case map_of (rev record_counts) sobject of
                          Some count \<Rightarrow> if count \<ge> 2000 then Some BULK else Some REST
                        | None \<Rightarrow> Some REST)
                  else api1)
      in if api2 = Some BULK then Inr BulkApiQueryOperation
         else if api2 = Some REST then Inr RestApiQueryOperation
         else Inl (AssertionError ''Unknown API''))"

section \<open>Summary status of a Bulk API job (step.py)\<close>

text \<open>
  \<open>BulkJobMixin._parse_job_state\<close> reads four element lists out of the batch list
  document: the texts of all \<open>state\<close> and \<open>stateMessage\<close> elements, and the numbers
  of all \<open>numberRecordsFailed\<close> and \<open>numberRecordsProcessed\<close> elements. The model
  starts from these four lists.
\<close>

definition parse_job_state ::
  "string list \<Rightarrow> string list \<Rightarrow> int list \<Rightarrow> int list \<Rightarrow> DataOperationJobResult" where
  "parse_job_state statuses state_messages failures processed =
     (let record_failure_count = sum_list failures;
          records_processed_count = sum_list processed
      in if ''Not Processed'' \<in> set statuses then
           \<lparr>status = ABORTED, job_errors = [],
            records_processed = records_processed_count,
            total_row_errors = record_failure_count\<rparr>
         else if ''InProgress'' \<in> set statuses \<or> ''Queued'' \<in> set statuses then
           \<lparr>status = IN_PROGRESS, job_errors = [],
            records_processed = records_processed_count,
            total_row_errors = record_failure_count\<rparr>
         else if ''Failed'' \<in> set statuses then
           \<lparr>status = JOB_FAILURE, job_errors = state_messages,
            records_processed = records_processed_count,
            total_row_errors = record_failure_count\<rparr>
         else if record_failure_count \<noteq> 0 then
           \<lparr>status = ROW_FAILURE, job_errors = [],
            records_processed = records_processed_count,
            total_row_errors = record_failure_count\<rparr>
         else
           \<lparr>status = SUCCESS, job_errors = [],
            records_processed = records_processed_count,
            total_row_errors = record_failure_count\<rparr>)"

section \<open>Row outcomes (step.py)\<close>

text \<open>Sequencing of calls that may raise.\<close>

definition and_then :: "error + 'a \<Rightarrow> ('a \<Rightarrow> error + 'b) \<Rightarrow> error + 'b" where
  "and_then r f = (case r of Inl e \<Rightarrow> Inl e | Inr x \<Rightarrow> f x)"

fun map_raise :: "('a \<Rightarrow> error + 'b) \<Rightarrow> 'a list \<Rightarrow> error + 'b list" where
  "map_raise f [] = Inr []"
| "map_raise f (x # xs) =
     (case f x of Inl e \<Rightarrow> Inl e
      | Inr y \<Rightarrow> (case map_raise f xs of Inl e \<Rightarrow> Inl e | Inr ys \<Rightarrow> Inr (y # ys)))"

text \<open>Python's \<open>xs[i]\<close> for \<open>i \<ge> 0\<close>: out of range raises \<open>IndexError\<close>.\<close>

definition item :: "'a list \<Rightarrow> nat \<Rightarrow> error + 'a" where
  "item xs i = (if i < length xs then Inr (xs ! i) else Inl IndexError)"

text \<open>
  \<open>process_bool_arg\<close> lives in \<open>cumulusci.core.utils\<close>, outside the files at hand.
  It is a parameter of every function that calls it: it takes a boolean, a
  string or \<open>None\<close>, and returns a boolean or raises.
\<close>

datatype py_arg = PyBool bool | PyStr string | PyNone

type_synonym bool_arg = "py_arg \<Rightarrow> error + bool"



text \<open>
  An assignment of a select operation: the dictionary
  \<open>{"id": ..., "success": ..., "created": ...}\<close> kept in \<open>select_results\<close>.
\<close>

record assignment =
  a_id :: string
  a_success :: bool
  a_created :: bool

text \<open>\<open>BulkApiDmlOperation._get_query_results\<close>.\<close>

definition get_query_result :: "bool_arg \<Rightarrow> assignment \<Rightarrow> error + DataOperationResult" where
  "get_query_result process_bool_arg row =
     and_then (process_bool_arg (PyBool (a_success row))) (\<lambda>success.
     and_then (process_bool_arg (PyBool (a_created row))) (\<lambda>created.
       Inr \<lparr>id = Some (if success then a_id row else []), success = success,
            error = Some [], created = Some created\<rparr>))"

definition get_query_results ::
  "bool_arg \<Rightarrow> assignment list \<Rightarrow> error + DataOperationResult list" where
  "get_query_results process_bool_arg select_results =
     map_raise (get_query_result process_bool_arg) select_results"

section \<open>Loading through the REST backend (step.py)\<close>

definition DEFAULT_BULK_BATCH_SIZE :: nat where
  "DEFAULT_BULK_BATCH_SIZE = 10000"

definition DEFAULT_REST_BATCH_SIZE :: nat where
  "DEFAULT_REST_BATCH_SIZE = 200"

definition MAX_REST_BATCH_SIZE :: nat where
  "MAX_REST_BATCH_SIZE = 200"

text \<open>
  The batch size the constructors store: \<open>api_options.get("batch_size") or DEFAULT\<close>,
  where a missing entry and the number 0 both give the default, and for REST
  the minimum with \<open>MAX_REST_BATCH_SIZE\<close>.
\<close>

definition bulk_batch_size :: "nat option \<Rightarrow> nat" where
  "bulk_batch_size opt =
     (case opt of None \<Rightarrow> DEFAULT_BULK_BATCH_SIZE
      | Some b \<Rightarrow> if b = 0 then DEFAULT_BULK_BATCH_SIZE else b)"

definition rest_batch_size :: "nat option \<Rightarrow> nat" where
  "rest_batch_size opt =
     min (case opt of None \<Rightarrow> DEFAULT_REST_BATCH_SIZE
          | Some b \<Rightarrow> if b = 0 then DEFAULT_REST_BATCH_SIZE else b)
         MAX_REST_BATCH_SIZE"

text \<open>
  Modelled from the spec: \<open>iterate_in_chunks\<close> of \<open>cumulusci.tasks.bulkdata.utils\<close> is
  not among the files at hand. The spec has the synchronous backend issue its
  requests "in fixed-size chunks": consecutive chunks of \<open>n\<close> items, the last one
  possibly shorter, and no chunk for no items.
\<close>

function iterate_in_chunks :: "nat \<Rightarrow> 'a list \<Rightarrow> 'a list list" where
  "iterate_in_chunks n xs =
     (if n = 0 \<or> xs = [] then [] else take n xs # iterate_in_chunks n (drop n xs))"
  by pat_completeness auto
termination
  by (relation "measure (\<lambda>(n, xs). length xs)") auto

declare iterate_in_chunks.simps [simp del]

text \<open>One entry of the list a \<open>composite/sobjects\<close> request answers with.\<close>

record rest_result =
  r_id :: "string option"
  r_success :: bool
  r_errors :: "(string \<times> string \<times> string list) list"
  r_created :: "bool option"

text \<open>
  What \<open>load_records\<close> is given from outside. \<open>record_to_json\<close> stands for
  \<open>_record_to_json\<close>, which builds the JSON object of one record or raises;
  \<open>json_Id\<close> reads the object's \<open>"Id"\<close> entry; \<open>restful\<close> is the remote call with
  its path, its HTTP method and its body, and answers with a result list or
  raises.
\<close>

record ('r, 'j) rest_env =
  record_to_json :: "'r \<Rightarrow> error + 'j"
  json_Id :: "'j \<Rightarrow> error + string"
  restful :: "string \<Rightarrow> string \<Rightarrow> 'j list option \<Rightarrow> error + rest_result list"

record rest_state =
  results :: "rest_result list"
  job_result :: DataOperationJobResult

fun join :: "string \<Rightarrow> string list \<Rightarrow> string" where
  "join sep [] = []"
| "join sep [x] = x"
| "join sep (x # y # ys) = x @ sep @ join sep (y # ys)"

definition rest_method :: "DataOperationType \<Rightarrow> error + string" where
  "rest_method operation =
     (if operation = INSERT then Inr ''POST''
      else if operation = UPDATE then Inr ''PATCH''
      else if operation = DELETE then Inr ''DELETE''
      else if operation = UPSERT then Inr ''PATCH''
      else Inl (KeyError ''operation''))"

text \<open>The body of the loop over chunks: the answer of one chunk's request.\<close>

definition load_chunk ::
  "('r, 'j) rest_env \<Rightarrow> string \<Rightarrow> DataOperationType \<Rightarrow> string option \<Rightarrow> string
     \<Rightarrow> 'r list \<Rightarrow> error + rest_result list" where
  "load_chunk env sobject operation update_key method chunk =
     (if operation = DELETE then
        and_then (map_raise (\<lambda>rec. and_then (record_to_json env rec) (json_Id env)) chunk) (\<lambda>ids.
          restful env (''composite/sobjects'' @ ''?ids='' @ join '','' ids) method None)
      else
        and_then (case update_key of
                    None \<Rightarrow> Inr []
                  | Some k \<Rightarrow>
                      if k = [] then Inr []
                      else if operation = UPSERT then Inr (''/'' @ sobject @ ''/'' @ k)
                      else Inl (AssertionError [])) (\<lambda>url_string.
        and_then (map_raise (record_to_json env) chunk) (\<lambda>js.
          restful env (''composite/sobjects'' @ url_string) method (Some js))))"

fun load_chunks ::
  "('r list \<Rightarrow> error + rest_result list) \<Rightarrow> 'r list list \<Rightarrow> rest_result list
     \<Rightarrow> error + rest_result list" where
  "load_chunks send [] acc = Inr acc"
| "load_chunks send (chunk # chunks) acc =
     (case send chunk of Inl e \<Rightarrow> Inl e | Inr res \<Rightarrow> load_chunks send chunks (acc @ res))"

text \<open>The job result \<open>load_records\<close> computes after the loop.\<close>

definition rest_job_result :: "rest_result list \<Rightarrow> DataOperationJobResult" where
  "rest_job_result rs =
     (let row_errors = length (filter (\<lambda>res. \<not> r_success res) rs)
      in \<lparr>status = (if row_errors = 0 then SUCCESS else ROW_FAILURE),
          job_errors = [],
          records_processed = int (length rs),
          total_row_errors = int row_errors\<rparr>)"

text \<open>\<open>RestApiDmlOperation.load_records\<close>.\<close>

definition load_records ::
  "('r, 'j) rest_env \<Rightarrow> string \<Rightarrow> DataOperationType \<Rightarrow> nat \<Rightarrow> string option
     \<Rightarrow> 'r list \<Rightarrow> error + rest_state" where
  "load_records env sobject operation batch_sz update_key records =
     and_then (rest_method operation) (\<lambda>method.
     and_then (load_chunks (load_chunk env sobject operation update_key method)
                 (iterate_in_chunks batch_sz records) []) (\<lambda>rs.
       Inr \<lparr>results = rs, job_result = rest_job_result rs\<rparr>))"

text \<open>
  \<open>RestApiDmlOperation.get_results\<close>, one entry: the identifier is whatever the
  org answered under \<open>"id"\<close>, \<open>None\<close> when there is none.
\<close>

definition rest_convert :: "DataOperationType \<Rightarrow> rest_result \<Rightarrow> DataOperationResult" where
  "rest_convert operation res =
     (let errors = (if r_errors res \<noteq> []
                    then join [CHR 0x0A]
                           (map (\<lambda>(statusCode, message, flds).
                                   statusCode @ '': '' @ message @ '' ('' @ join '','' flds @ '')'')
                                (r_errors res))
                    else []);
          created = (if operation = INSERT then Some True
                     else if operation = UPDATE then Some False
                     else r_created res)
      in \<lparr>id = r_id res, success = r_success res, error = Some errors, created = created\<rparr>)"

section \<open>Batches of the Bulk backend (step.py)\<close>

text \<open>
  \<open>BulkApiDmlOperation._serialize_csv_record\<close>: one row written by a CSV writer
  with \<open>QUOTE_ALL\<close> in the default dialect (every field between double quotes,
  a double quote inside a field doubled, fields separated by commas, the row
  ended by carriage return and line feed), then encoded. Strings are bytes
  already, so the length of the result is the length the source measures.
\<close>

definition quote_field :: "string \<Rightarrow> string" where
  "quote_field f =
     CHR 0x22 # concat (map (\<lambda>c. if c = CHR 0x22 then [c, c] else [c]) f) @ [CHR 0x22]"

definition serialize_csv_record :: "string list \<Rightarrow> string" where
  "serialize_csv_record record = join '','' (map quote_field record) @ [CHR 0x0D, CHR 0x0A]"

text \<open>
  The loop of \<open>BulkApiDmlOperation._batch\<close> over the records, with the loop
  variables \<open>batch\<close> and \<open>current_chars\<close> as arguments. The batches the generator
  yields are collected in a list, in the order they are yielded.
\<close>

fun batch_loop ::
  "string \<Rightarrow> int \<Rightarrow> int \<Rightarrow> string list \<Rightarrow> int \<Rightarrow> string list list \<Rightarrow> string list list" where
  "batch_loop serialized_csv_fields n char_limit batch current_chars [] =
     (if length batch > 1 then [batch] else [])"
| "batch_loop serialized_csv_fields n char_limit batch current_chars (record # records) =
     (let serialized_record = serialize_csv_record record;
          over = (int (length serialized_record) + current_chars > char_limit);
          batch1 = (if over then [serialized_csv_fields] else batch);
          chars1 = (if over then int (length serialized_csv_fields) else current_chars);
          batch2 = batch1 @ [serialized_record];
          chars2 = chars1 + int (length serialized_record)
      in (if over then [batch] else []) @
         (if int (length batch2) - 1 = n
          then batch2 # batch_loop serialized_csv_fields n char_limit
                          [serialized_csv_fields] (int (length serialized_csv_fields)) records
          else batch_loop serialized_csv_fields n char_limit batch2 chars2 records))"

text \<open>\<open>BulkApiDmlOperation._batch\<close>, with \<open>self.fields\<close> as first argument.\<close>

definition batch :: "string list \<Rightarrow> string list list \<Rightarrow> int \<Rightarrow> int \<Rightarrow> string list list" where
  "batch field_names records n char_limit =
     (let serialized_csv_fields = serialize_csv_record field_names
      in batch_loop serialized_csv_fields n char_limit
           [serialized_csv_fields] (int (length serialized_csv_fields)) records)"

text \<open>The serialized size of a batch: the bytes of all its rows, the header row included.\<close>

definition batch_chars :: "string list \<Rightarrow> int" where
  "batch_chars b = sum_list (map (\<lambda>row. int (length row)) b)"

section \<open>User filter queries (step.py)\<close>

text \<open>
  The regular expressions of \<open>generate_user_filter_query\<close>, on ASCII text.
  \<open>is_space\<close> is the class \<open>\s\<close> (and what \<open>str.strip\<close> removes), \<open>is_digit\<close> the
  class \<open>\d\<close>; \<open>upper_char\<close> folds the case of a letter, for \<open>re.IGNORECASE\<close>.
\<close>

definition is_space :: "char \<Rightarrow> bool" where
  "is_space c =
     (c \<in> set [CHR 0x09, CHR 0x0A, CHR 0x0B, CHR 0x0C, CHR 0x0D,
               CHR 0x1C, CHR 0x1D, CHR 0x1E, CHR 0x1F, CHR 0x20])"

definition is_digit :: "char \<Rightarrow> bool" where
  "is_digit c = (c \<in> set ''0123456789'')"

definition upper_char :: "char \<Rightarrow> char" where
  "upper_char c =
     (case map_of (zip ''abcdefghijklmnopqrstuvwxyz'' ''ABCDEFGHIJKLMNOPQRSTUVWXYZ'') c of
        Some u \<Rightarrow> u
      | None \<Rightarrow> c)"

fun index_of :: "'a \<Rightarrow> 'a list \<Rightarrow> nat" where
  "index_of c [] = 0"
| "index_of c (x # xs) = (if c = x then 0 else Suc (index_of c xs))"

text \<open>\<open>int(digits)\<close> for a text of decimal digits.\<close>

definition int_of_digits :: "string \<Rightarrow> int" where
  "int_of_digits ds = foldl (\<lambda>a c. 10 * a + int (index_of c ''0123456789'')) 0 ds"

text \<open>
  An upper-case keyword at the start of a text, ignoring case: the rest of the
  text after it.
\<close>

fun match_keyword :: "string \<Rightarrow> string \<Rightarrow> string option" where
  "match_keyword [] s = Some s"
| "match_keyword (k # ks) [] = None"
| "match_keyword (k # ks) (c # cs) = (if upper_char c = k then match_keyword ks cs else None)"

text \<open>
  The pattern \<open>KEYWORD\s+(\d+)\<close> at the start of a text: the number of its group
  and the rest of the text. Both repetitions are greedy, and since no
  character is a space and a digit, or a space and the keyword's first letter,
  giving characters back never lets a failed match succeed.
\<close>

definition match_keyword_number :: "string \<Rightarrow> string \<Rightarrow> (int \<times> string) option" where
  "match_keyword_number keyword s =
     (case match_keyword keyword s of
        None \<Rightarrow> None
      | Some r1 \<Rightarrow>
          (let r2 = dropWhile is_space r1;
               ds = takeWhile is_digit r2
           in if takeWhile is_space r1 = [] \<or> ds = [] then None
              else Some (int_of_digits ds, dropWhile is_digit r2)))"

text \<open>\<open>re.search(r"KEYWORD\s+(\d+)", s, re.IGNORECASE)\<close>, and \<open>int(match.group(1))\<close>.\<close>

fun re_search :: "string \<Rightarrow> string \<Rightarrow> int option" where
  "re_search keyword [] = None"
| "re_search keyword (c # cs) =
     (case match_keyword_number keyword (c # cs) of
        Some (v, rest) \<Rightarrow> Some v
      | None \<Rightarrow> re_search keyword cs)"

text \<open>The pattern \<open>\s+KEYWORD\s+\d+\s*\<close> at the start of a text: the rest after it.\<close>

definition match_clause :: "string \<Rightarrow> string \<Rightarrow> string option" where
  "match_clause keyword s =
     (if takeWhile is_space s = [] then None
      else (case match_keyword_number keyword (dropWhile is_space s) of
              None \<Rightarrow> None
            | Some (v, rest) \<Rightarrow> Some (dropWhile is_space rest)))"

text \<open>
  \<open>re.sub(r"\s+KEYWORD\s+\d+\s*", " ", s, flags=re.IGNORECASE)\<close>: every match, found
  from left to right, becomes one space.
\<close>

function re_sub :: "string \<Rightarrow> string \<Rightarrow> string" where
  "re_sub keyword [] = []"
| "re_sub keyword (c # cs) =
     (case match_clause keyword (c # cs) of
        Some rest \<Rightarrow> CHR 0x20 # re_sub keyword rest
      | None \<Rightarrow> c # re_sub keyword cs)"
  by pat_completeness auto
termination
proof (relation "measure (\<lambda>(keyword, s). length s)")
  show "wf (measure (\<lambda>(keyword, s). length s))"
    by simp
next
  fix keyword :: string and c :: char and cs rest :: string
  assume m: "match_clause keyword (c # cs) = Some rest"
  have kw: "\<And>k s r. match_keyword k s = Some r \<Longrightarrow> length r \<le> length s"
  proof -
    fix k s r show "match_keyword k s = Some r \<Longrightarrow> length r \<le> length s"
      by (induction k s rule: match_keyword.induct) (auto split: if_splits)
  qed
  have dw: "\<And>P (xs :: string). length (dropWhile P xs) \<le> length xs"
    by (simp add: length_dropWhile_le)
  from m obtain v r3 where sp: "takeWhile is_space (c # cs) \<noteq> []"
    and n: "match_keyword_number keyword (dropWhile is_space (c # cs)) = Some (v, r3)"
    and r: "rest = dropWhile is_space r3"
    by (auto simp: match_clause_def split: if_splits option.splits)
  from n obtain r1 where k1: "match_keyword keyword (dropWhile is_space (c # cs)) = Some r1"
    and r3: "r3 = dropWhile is_digit (dropWhile is_space r1)"
    by (auto simp: match_keyword_number_def Let_def split: option.splits if_splits)
  from sp have "is_space c"
    by (auto split: if_splits)
  then have "length (dropWhile is_space (c # cs)) \<le> length cs"
    by (simp add: dw)
  moreover have "length r1 \<le> length (dropWhile is_space (c # cs))"
    using kw [OF k1] .
  moreover have "length rest \<le> length r1"
    unfolding r r3 using dw [of is_space "dropWhile is_digit (dropWhile is_space r1)"]
      dw [of is_digit "dropWhile is_space r1"] dw [of is_space r1]
    by linarith
  ultimately show "((keyword, rest), (keyword, c # cs)) \<in> measure (\<lambda>(keyword, s). length s)"
    by simp
next
  fix keyword :: string and c :: char and cs :: string
  show "((keyword, cs), (keyword, c # cs)) \<in> measure (\<lambda>(keyword, s). length s)"
    by simp
qed

declare re_sub.simps [simp del]

text \<open>\<open>str.strip()\<close>.\<close>

definition strip :: "string \<Rightarrow> string" where
  "strip s = rev (dropWhile is_space (rev (dropWhile is_space s)))"

text \<open>
  \<open>generate_user_filter_query\<close>. The limit and the offset are optional Python
  integers.
\<close>

definition generate_user_filter_query ::
  "string \<Rightarrow> string \<Rightarrow> string list \<Rightarrow> int option \<Rightarrow> int option \<Rightarrow> string" where
  "generate_user_filter_query filter_clause sobject field_names limit_clause offset_clause =
     (let existing_limit_match = re_search ''LIMIT'' filter_clause;
          existing_offset_match = re_search ''OFFSET'' filter_clause;
          limit_clause1 =
            (case existing_limit_match of
               None \<Rightarrow> limit_clause
             | Some existing_limit \<Rightarrow>
                 (case limit_clause of
                    Some l \<Rightarrow> Some (min existing_limit l)
                  | None \<Rightarrow> Some existing_limit));
          offset_clause1 =
            (case existing_offset_match of
               None \<Rightarrow> offset_clause
             | Some existing_offset \<Rightarrow>
                 (case offset_clause of
                    Some off \<Rightarrow> Some (existing_offset + off)
                  | None \<Rightarrow> Some existing_offset));
          filter_clause1 = strip (re_sub ''OFFSET'' filter_clause);
          filter_clause2 = strip (re_sub ''LIMIT'' filter_clause1);
          fields_str = join '', '' field_names;
          query = ''SELECT '' @ fields_str @ '' FROM '' @ sobject @ '' '' @ filter_clause2
      in query
         @ (case limit_clause1 of Some l \<Rightarrow> '' LIMIT '' @ str_int l | None \<Rightarrow> [])
         @ (case offset_clause1 of Some off \<Rightarrow> '' OFFSET '' @ str_int off | None \<Rightarrow> []))"

section \<open>Select operations (step.py)\<close>

datatype SelectStrategy = STANDARD | SIMILARITY | RANDOM

text \<open>
  What a select operation is given from outside. \<open>select_generate_query\<close> is the
  query builder of the operation's \<open>SelectOperationExecutor\<close> (in
  \<open>select_utils\<close>, outside the files at hand) for the operation's strategy,
  object and fields: from a limit and an optional offset it gives the SOQL text
  and the resolved field names. \<open>run_query\<close> is the org answering one SOQL
  query with rows of texts, or raising. \<open>composite\<close> is the org answering a
  composite request of a select query and a user query: the rows of both, or
  \<open>SOQLQueryException\<close> when a part has no status 200. \<open>closest\<close> is the
  similarity engine: the candidate row chosen for a load record.
\<close>

record 'r select_env =
  select_generate_query :: "int \<Rightarrow> int option \<Rightarrow> string \<times> string list"
  run_query :: "string \<Rightarrow> error + string list list"
  composite :: "string \<Rightarrow> string \<Rightarrow> error + (string list list \<times> string list list)"
  closest :: "'r \<Rightarrow> string list list \<Rightarrow> string list"

record select_state =
  select_results :: "assignment list"
  select_job_result :: DataOperationJobResult

text \<open>The assignment made from a candidate row: its leading column is the identifier.\<close>

definition assignment_of :: "string list \<Rightarrow> error + assignment" where
  "assignment_of row =
     and_then (item row 0) (\<lambda>i. Inr \<lparr>a_id = i, a_success = True, a_created = False\<rparr>)"

text \<open>
  Modelled from the spec: \<open>SelectOperationExecutor.select_post_process\<close> of
  \<open>select_utils\<close> is not among the files at hand. By the spec, with no candidate
  it returns no assignment and the message
  "No records found for {sobject} in the target org."; under STANDARD and RANDOM
  it cycles through the candidates round-robin to produce exactly \<open>num_records\<close>
  assignments, each with the candidate's identifier, \<open>success=True\<close> and
  \<open>created=False\<close>; under SIMILARITY it gives one assignment per load record,
  from the nearest candidate.
\<close>

definition select_post_process ::
  "SelectStrategy \<Rightarrow> ('r \<Rightarrow> string list list \<Rightarrow> string list) \<Rightarrow> 'r list \<Rightarrow> string list list
     \<Rightarrow> nat \<Rightarrow> string \<Rightarrow> error + (assignment list \<times> string option)" where
  "select_post_process strategy nearest load_recs query_records num_records sobject =
     (if query_records = [] then
        Inr ([], Some (''No records found for '' @ sobject @ '' in the target org.''))
      else if strategy = SIMILARITY then
        and_then (map_raise (\<lambda>l. assignment_of (nearest l query_records)) load_recs) (\<lambda>sel.
          Inr (sel, None))
      else
        and_then (map_raise assignment_of query_records) (\<lambda>cands.
          Inr (map (\<lambda>i. cands ! (i mod length cands)) [0 ..< num_records], None)))"

text \<open>
  The end of both \<open>select_records\<close>: the selected records are kept when there is
  no error message, and the job result is built from what is kept.
\<close>

definition select_outcome :: "assignment list \<times> string option \<Rightarrow> select_state" where
  "select_outcome r =
     (let (selected_records, error_message) = r;
          no_message = (error_message = None \<or> error_message = Some []);
          kept = (if no_message then selected_records else [])
      in \<lparr>select_results = kept,
          select_job_result =
            \<lparr>status = (if length kept \<noteq> 0 then SUCCESS else JOB_FAILURE),
             job_errors = (if no_message then [] else [the error_message]),
             records_processed = int (length kept),
             total_row_errors = 0\<rparr>\<rparr>)"

text \<open>\<open>range(0, stop, step)\<close>; a step of 0 raises.\<close>

definition range0 :: "nat \<Rightarrow> nat \<Rightarrow> error + nat list" where
  "range0 stop step =
     (if step = 0 then Inl (ValueError ''range() arg 3 must not be zero'')
      else Inr (map (\<lambda>k. k * step) [0 ..< (stop + step - 1) div step]))"

text \<open>The identifiers of the user query's rows: the first column of each.\<close>

definition user_ids :: "string list list \<Rightarrow> error + string list" where
  "user_ids user_query_records = map_raise (\<lambda>record. item record 0) user_query_records"

text \<open>
  The candidates whose \<open>Id\<close> is among the user query's identifiers, in the order
  of the identifiers. The dictionary from \<open>Id\<close> to row keeps the last row of
  each \<open>Id\<close>.
\<close>

definition intersect_by_id ::
  "string list \<Rightarrow> string list list \<Rightarrow> string list \<Rightarrow> error + string list list" where
  "intersect_by_id query_fields select_query_records user_query_ids =
     and_then (map_raise (\<lambda>record.
                 if ''Id'' \<in> set query_fields
                 then and_then (item record (index_of ''Id'' query_fields)) (\<lambda>k. Inr (k, record))
                 else Inl (ValueError ''Id is not in list'')) select_query_records) (\<lambda>pairs.
       Inr (List.map_filter (map_of (rev pairs)) user_query_ids))"

definition has_filter :: "string option \<Rightarrow> bool" where
  "has_filter selection_filter = (selection_filter \<noteq> None \<and> selection_filter \<noteq> Some [])"

text \<open>
  One round of the loop of \<open>BulkApiDmlOperation.select_records\<close>: the candidates
  it adds to \<open>query_records\<close>. The Bulk API has no offset. The rows of the select
  query are cut to the number of query fields.
\<close>

definition bulk_select_batch ::
  "'r select_env \<Rightarrow> string option \<Rightarrow> string \<Rightarrow> nat \<Rightarrow> error + string list list" where
  "bulk_select_batch env selection_filter sobject num_records =
     (let (select_query, query_fields) = select_generate_query env (int num_records) None
      in if has_filter selection_filter then
           (let user_query = generate_user_filter_query (the selection_filter) sobject [''Id'']
                               (Some (int num_records)) None
            in and_then (run_query env user_query) (\<lambda>user_query_records.
               and_then (user_ids user_query_records) (\<lambda>user_query_ids.
               and_then (run_query env select_query) (\<lambda>rows.
                 intersect_by_id query_fields (map (take (length query_fields)) rows)
                   user_query_ids))))
         else
           and_then (run_query env select_query) (\<lambda>rows.
             Inr (map (take (length query_fields)) rows)))"

text \<open>
  The loop over the offsets, with \<open>query_records\<close> and the loop-local
  \<open>num_records\<close> as state. \<open>num_records\<close> is \<open>None\<close> as long as no round has
  assigned it.
\<close>

fun bulk_select_loop ::
  "'r select_env \<Rightarrow> string option \<Rightarrow> string \<Rightarrow> nat \<Rightarrow> nat \<Rightarrow> nat list
     \<Rightarrow> string list list \<Rightarrow> nat option \<Rightarrow> error + (string list list \<times> nat option)" where
  "bulk_select_loop env selection_filter sobject bsize total_num_records [] query_records num =
     Inr (query_records, num)"
| "bulk_select_loop env selection_filter sobject bsize total_num_records (offset # offsets)
     query_records num =
     (let num_records = min bsize (total_num_records - offset)
      in case bulk_select_batch env selection_filter sobject num_records of
           Inl e \<Rightarrow> Inl e
         | Inr recs \<Rightarrow>
             bulk_select_loop env selection_filter sobject bsize total_num_records offsets
               (query_records @ recs) (Some num_records))"

text \<open>
  \<open>BulkApiDmlOperation.select_records\<close>. After the loop, the call of
  \<open>select_post_process\<close> reads \<open>num_records\<close>: when no round has run the variable
  is unbound and Python raises \<open>UnboundLocalError\<close>.
\<close>

definition bulk_select_records ::
  "'r select_env \<Rightarrow> SelectStrategy \<Rightarrow> string option \<Rightarrow> string \<Rightarrow> nat \<Rightarrow> 'r list
     \<Rightarrow> error + select_state" where
  "bulk_select_records env strategy selection_filter sobject bsize records =
     (let total_num_records = length records
      in and_then (range0 total_num_records bsize) (\<lambda>offsets.
         and_then (bulk_select_loop env selection_filter sobject bsize total_num_records
                     offsets [] None) (\<lambda>(query_records, num).
           case num of
             None \<Rightarrow> Inl (UnboundLocalError ''num_records'')
           | Some num_records \<Rightarrow>
               and_then (select_post_process strategy (closest env) records query_records
                           num_records sobject) (\<lambda>r.
                 Inr (select_outcome r)))))"

text \<open>
  One round of the loop of \<open>RestApiDmlOperation.select_records\<close>, with
  \<open>_execute_composite_query\<close> when there is a selection filter.
\<close>

definition rest_select_batch ::
  "'r select_env \<Rightarrow> string option \<Rightarrow> string \<Rightarrow> nat \<Rightarrow> nat \<Rightarrow> error + string list list" where
  "rest_select_batch env selection_filter sobject num_records offset =
     (let (select_query, query_fields) =
            select_generate_query env (int num_records) (Some (int offset))
      in if has_filter selection_filter then
           (let user_query = generate_user_filter_query (the selection_filter) sobject [''Id'']
                               (Some (int num_records)) (Some (int offset))
            in and_then (composite env select_query user_query)
                 (\<lambda>(select_query_records, user_query_records).
                    and_then (user_ids user_query_records) (\<lambda>user_query_ids.
                      intersect_by_id query_fields select_query_records user_query_ids)))
         else run_query env select_query)"

fun rest_select_loop ::
  "'r select_env \<Rightarrow> string option \<Rightarrow> string \<Rightarrow> nat \<Rightarrow> nat \<Rightarrow> nat list
     \<Rightarrow> string list list \<Rightarrow> error + string list list" where
  "rest_select_loop env selection_filter sobject bsize total_num_records [] query_records =
     Inr query_records"
| "rest_select_loop env selection_filter sobject bsize total_num_records (offset # offsets)
     query_records =
     (let num_records = min bsize (total_num_records - offset)
      in case rest_select_batch env selection_filter sobject num_records offset of
           Inl e \<Rightarrow> Inl e
         | Inr recs \<Rightarrow>
             rest_select_loop env selection_filter sobject bsize total_num_records offsets
               (query_records @ recs))"

text \<open>
  \<open>RestApiDmlOperation.select_records\<close>: the post-processing is given the total
  number of input records.
\<close>

definition rest_select_records ::
  "'r select_env \<Rightarrow> SelectStrategy \<Rightarrow> string option \<Rightarrow> string \<Rightarrow> nat \<Rightarrow> 'r list
     \<Rightarrow> error + select_state" where
  "rest_select_records env strategy selection_filter sobject bsize records =
     (let total_num_records = length records
      in and_then (range0 total_num_records bsize) (\<lambda>offsets.
         and_then (rest_select_loop env selection_filter sobject bsize total_num_records
                     offsets []) (\<lambda>query_records.
         and_then (select_post_process strategy (closest env) records query_records
                     total_num_records sobject) (\<lambda>r.
           Inr (select_outcome r)))))"

section \<open>Concrete surroundings for the examples\<close>


text \<open>
  An org for the REST examples: a record is its \<open>Name\<close>, the conversion never
  raises, and the org answers one entry per record of the request, rejecting a
  record whose required \<open>Name\<close> is empty.
\<close>

definition example_rest_env :: "(string, string) rest_env" where
  "example_rest_env =
     \<lparr>record_to_json = Inr,
      json_Id = Inr,
      restful = (\<lambda>path method body.
        case body of
          None \<Rightarrow> Inr []
        | Some js \<Rightarrow>
            Inr (map (\<lambda>j. if j = []
                          then \<lparr>r_id = None, r_success = False,
                                r_errors = [(''REQUIRED_FIELD_MISSING'',
                                             ''Required fields are missing'', [''Name''])],
                                r_created = None\<rparr>
                          else \<lparr>r_id = Some (''001'' @ j), r_success = True, r_errors = [],
                                r_created = Some True\<rparr>) js))\<rparr>"

text \<open>
  An org for the select examples. It holds the given candidate identifiers
  (no more of them than the smallest limit asked for), answers every query with
  one row per candidate, and builds queries that ask for the \<open>Id\<close> alone. A
  load record is a list of field values.
\<close>

definition example_select_env :: "string list \<Rightarrow> (string list) select_env" where
  "example_select_env candidates =
     \<lparr>select_generate_query = (\<lambda>limit offset. (''SELECT Id FROM Contact'', [''Id''])),
      run_query = (\<lambda>soql. Inr (map (\<lambda>c. [c]) candidates)),
      composite = (\<lambda>select_query user_query.
                     Inr (map (\<lambda>c. [c]) candidates, map (\<lambda>c. [c]) candidates)),
      closest = (\<lambda>l rows. case rows of [] \<Rightarrow> [] | row # _ \<Rightarrow> row)\<rparr>"

section \<open>Theorems\<close>

subsection \<open>Decimal text\<close>

lemma str_int_0: "str_int 0 = ''0''"
  by (simp add: str_int_def str_nat.simps digit_char_def)

subsection \<open>The status report and the error threshold\<close>

text \<open>
  Claim C9. The error threshold is zero, and a status report raises the fatal
  \<open>BulkDataException\<close> exactly when the snapshot's \<open>sets_failed\<close> exceeds it;
  the message names the actual count and the threshold. Otherwise the report
  returns the snapshot.
\<close>

theorem report_status_threshold:
  "ERROR_THRESHOLD = 0 \<and>
   report_status us =
     (if sets_failed us > 0
      then Inl (BulkDataException
                 (''Errors exceeded threshold: '' @ str_int (sets_failed us) @ '' vs 0''))
      else Inr us)"
  by (simp add: report_status_def ERROR_THRESHOLD_def str_int_0)

subsection \<open>Backend choice\<close>

text \<open>
  Claim C3, as stated, fails: a caller who forces the REST backend against an
  org whose API version is below 42.0 gets the Bulk backend.
\<close>

theorem get_dml_operation_forced_rest_counterexample:
  "get_dml_operation 41 INSERT 1 (Some REST) = Inr BulkApiDmlOperation"
  by (simp add: get_dml_operation_def)

text \<open>
  Claim C3, amended. A caller who forces Bulk gets Bulk. A caller who forces
  REST gets REST when the API version is at least 42.0 and Bulk below it. In
  smart mode (\<open>SMART\<close> or \<open>None\<close>) Bulk is chosen exactly when the volume is at
  least 2000, or the operation is a hard delete, or the API version is below
  42.0, and REST otherwise. No case raises.
\<close>

theorem get_dml_operation_choice:
  "get_dml_operation v operation volume api =
     Inr (case api of
            Some BULK \<Rightarrow> BulkApiDmlOperation
          | Some REST \<Rightarrow> (if v < 42 then BulkApiDmlOperation else RestApiDmlOperation)
          | _ \<Rightarrow> (if volume \<ge> 2000 \<or> operation = HARD_DELETE \<or> v < 42
                 then BulkApiDmlOperation else RestApiDmlOperation))"
  by (auto simp: get_dml_operation_def Let_def split: option.splits DataApi.splits)

theorem get_dml_operation_choice_witness:
  "get_dml_operation 52 INSERT 1999 (Some SMART) = Inr RestApiDmlOperation \<and>
   get_dml_operation 52 INSERT 2000 None = Inr BulkApiDmlOperation \<and>
   get_dml_operation 52 HARD_DELETE 1 (Some SMART) = Inr BulkApiDmlOperation \<and>
   get_dml_operation 52 HARD_DELETE 5000 (Some REST) = Inr RestApiDmlOperation \<and>
   get_dml_operation 41 INSERT 1 (Some BULK) = Inr BulkApiDmlOperation"
  using get_dml_operation_choice [of 52 INSERT 1999 "Some SMART"]
        get_dml_operation_choice [of 52 INSERT 2000 None]
        get_dml_operation_choice [of 52 HARD_DELETE 1 "Some SMART"]
        get_dml_operation_choice [of 52 HARD_DELETE 5000 "Some REST"]
        get_dml_operation_choice [of 41 INSERT 1 "Some BULK"]
  by simp

subsection \<open>Job status from batch states\<close>

text \<open>
  Claim C4. With failed-record counts that are not negative, the job status
  follows the precedence: a \<open>Not Processed\<close> batch gives aborted; otherwise an
  \<open>InProgress\<close> or \<open>Queued\<close> batch gives in progress; otherwise a \<open>Failed\<close>
  batch gives job failure, with the state messages as job errors; otherwise a
  positive number of failed records gives row failure; otherwise success. The
  processed and failed counts are the sums over all batches.
\<close>

theorem parse_job_state_precedence:
  assumes "\<forall>f \<in> set failures. 0 \<le> f"
  shows "status (parse_job_state statuses msgs failures processed) =
           (if ''Not Processed'' \<in> set statuses then ABORTED
            else if ''InProgress'' \<in> set statuses \<or> ''Queued'' \<in> set statuses then IN_PROGRESS
            else if ''Failed'' \<in> set statuses then JOB_FAILURE
            else if 0 < sum_list failures then ROW_FAILURE
            else SUCCESS) \<and>
         job_errors (parse_job_state statuses msgs failures processed) =
           (if ''Not Processed'' \<notin> set statuses \<and> ''InProgress'' \<notin> set statuses \<and>
               ''Queued'' \<notin> set statuses \<and> ''Failed'' \<in> set statuses
            then msgs else []) \<and>
         records_processed (parse_job_state statuses msgs failures processed) = sum_list processed \<and>
         total_row_errors (parse_job_state statuses msgs failures processed) = sum_list failures"
proof -
  have "0 \<le> sum_list failures"
    using assms by (simp add: sum_list_nonneg)
  then have "(sum_list failures \<noteq> 0) = (0 < sum_list failures)"
    by linarith
  then show ?thesis
    by (simp add: parse_job_state_def Let_def)
qed

theorem parse_job_state_precedence_witness:
  "status (parse_job_state [''Completed'', ''Completed''] [] [0, 2] [5, 5]) = ROW_FAILURE \<and>
   records_processed (parse_job_state [''Completed'', ''Completed''] [] [0, 2] [5, 5]) = 10 \<and>
   total_row_errors (parse_job_state [''Completed'', ''Completed''] [] [0, 2] [5, 5]) = 2"
  using parse_job_state_precedence
          [of "[0, 2]" "[''Completed'', ''Completed'']" "[]" "[5, 5]"]
  by simp

subsection \<open>Row outcomes of the Bulk backend\<close>

lemma map_raise_mem:
  "map_raise f xs = Inr ys \<Longrightarrow> y \<in> set ys \<Longrightarrow> \<exists>x \<in> set xs. f x = Inr y"
  by (induction xs arbitrary: ys) (auto split: sum.splits)




subsection \<open>The job result of a REST load\<close>

lemma load_chunks_ok:
  "map send chunks = map Inr resps \<Longrightarrow> load_chunks send chunks acc = Inr (acc @ concat resps)"
proof (induction chunks arbitrary: resps acc)
  case Nil then show ?case by simp
next
  case (Cons c cs)
  then obtain r rs where "resps = r # rs" "send c = Inr r" "map send cs = map Inr rs"
    by (cases resps) auto
  with Cons.IH [of rs "acc @ r"] show ?case by simp
qed

lemma rest_job_result_status:
  "status (rest_job_result rs) = (if \<exists>r \<in> set rs. \<not> r_success r then ROW_FAILURE else SUCCESS)"
  by (auto simp: rest_job_result_def Let_def filter_empty_conv)

text \<open>
  Claim C8. A REST load whose operation has an HTTP method, and whose chunk
  requests all answer, returns one state with one job result. The results are
  the concatenation of the chunk answers; the job result counts all entries as
  processed and the unsuccessful ones as row errors, and its status is row
  failure exactly when an entry failed, success otherwise.
\<close>

theorem load_records_one_job_result:
  assumes "rest_method operation = Inr m"
    and "map (load_chunk env sobject operation update_key m) (iterate_in_chunks bs records)
           = map Inr resps"
  shows "load_records env sobject operation bs update_key records =
           Inr \<lparr>results = concat resps,
                job_result =
                  \<lparr>status = (if \<exists>r \<in> set (concat resps). \<not> r_success r
                              then ROW_FAILURE else SUCCESS),
                   job_errors = [],
                   records_processed = int (length (concat resps)),
                   total_row_errors = int (length (filter (\<lambda>r. \<not> r_success r) (concat resps)))\<rparr>\<rparr>"
proof -
  have "load_chunks (load_chunk env sobject operation update_key m)
          (iterate_in_chunks bs records) [] = Inr (concat resps)"
    using load_chunks_ok [OF assms(2), of "[]"] by simp
  moreover have "rest_job_result (concat resps) =
       \<lparr>status = (if \<exists>r \<in> set (concat resps). \<not> r_success r then ROW_FAILURE else SUCCESS),
        job_errors = [],
        records_processed = int (length (concat resps)),
        total_row_errors = int (length (filter (\<lambda>r. \<not> r_success r) (concat resps)))\<rparr>"
    unfolding rest_job_result_def Let_def
    by (simp only: length_0_conv filter_empty_conv) auto
  ultimately show ?thesis
    by (simp add: load_records_def and_then_def assms(1))
qed

text \<open>
  Five INSERT records in chunks of two, one of them with its required field
  empty: status row failure, 5 processed, 1 row error.
\<close>

theorem load_records_one_job_result_witness: "\<exists>rs. load_records example_rest_env ''Account'' INSERT 2 None [''a'', ''b'', '''', ''d'', ''e''] =
   Inr \<lparr>results = rs, job_result = \<lparr>status = ROW_FAILURE, job_errors = [], records_processed = 5, total_row_errors = 1\<rparr>\<rparr>"
proof -
  let ?ok = "\<lambda>j. \<lparr>r_id = Some (''001'' @ j), r_success = True, r_errors = [], r_created = Some True\<rparr>"
  let ?bad = "\<lparr>r_id = None, r_success = False,
                r_errors = [(''REQUIRED_FIELD_MISSING'', ''Required fields are missing'', [''Name''])],
                r_created = None\<rparr>"
  have m: "rest_method INSERT = Inr ''POST''" by (simp add: rest_method_def)
  have c: "map (load_chunk example_rest_env ''Account'' INSERT None ''POST'')
             (iterate_in_chunks 2 [''a'', ''b'', '''', ''d'', ''e''])
           = map Inr [[?ok ''a'', ?ok ''b''], [?bad, ?ok ''d''], [?ok ''e'']]"
    by (simp add: iterate_in_chunks.simps load_chunk_def and_then_def example_rest_env_def)
  show ?thesis
    using load_records_one_job_result [OF m c] by simp
qed

subsection \<open>Batches of the Bulk backend\<close>

lemma batch_chars_Nil: "batch_chars [] = 0"
  by (simp add: batch_chars_def)

lemma batch_chars_Cons: "batch_chars (x # xs) = int (length x) + batch_chars xs"
  by (simp add: batch_chars_def)

lemma batch_chars_append: "batch_chars (xs @ ys) = batch_chars xs + batch_chars ys"
  by (simp add: batch_chars_def)

lemmas batch_chars_simps = batch_chars_Nil batch_chars_Cons batch_chars_append

text \<open>
  Whatever \<open>n\<close> and the character limit are, every yielded batch starts with the
  header row, and the data rows of the batches, in order, are the rows still in
  the current batch followed by the serialized records.
\<close>

lemma batch_loop_partition:
  "(\<forall>b \<in> set (batch_loop hdr n climit (hdr # rows) cur records). hd b = hdr) \<and>
   concat (map tl (batch_loop hdr n climit (hdr # rows) cur records)) =
     rows @ map serialize_csv_record records"
proof (induction records arbitrary: rows cur)
  case Nil
  show ?case by simp
next
  case (Cons r rs)
  let ?s = "serialize_csv_record r"
  note new = Cons.IH [of "[]" "int (length hdr)"]
  note one = Cons.IH [of "[?s]" "int (length hdr) + int (length ?s)"]
  note more = Cons.IH [of "rows @ [?s]" "cur + int (length ?s)"]
  show ?case
  proof (cases "int (length ?s) + cur > climit")
    case True
    with new one show ?thesis by (auto simp: Let_def)
  next
    case False
    with new more show ?thesis by (auto simp: Let_def)
  qed
qed

text \<open>With a positive \<open>n\<close>, no yielded batch has more than \<open>n\<close> data rows.\<close>

lemma batch_loop_rows:
  assumes "0 < n" and "int (length rows) < n"
  shows "\<forall>b \<in> set (batch_loop hdr n climit (hdr # rows) cur records). int (length (tl b)) \<le> n"
  using assms(2)
proof (induction records arbitrary: rows cur)
  case Nil
  then show ?case by simp
next
  case (Cons r rs)
  let ?s = "serialize_csv_record r"
  have new: "\<forall>b \<in> set (batch_loop hdr n climit (hdr # []) (int (length hdr)) rs).
               int (length (tl b)) \<le> n"
    by (rule Cons.IH) (simp add: assms(1))
  show ?case
  proof (cases "int (length ?s) + cur > climit")
    case over: True
    show ?thesis
    proof (cases "n = 1")
      case True
      with over new Cons.prems show ?thesis by (simp add: Let_def)
    next
      case False
      have "\<forall>b \<in> set (batch_loop hdr n climit (hdr # [?s])
                         (int (length hdr) + int (length ?s)) rs).
              int (length (tl b)) \<le> n"
        by (rule Cons.IH) (use False assms(1) in simp)
      with over False Cons.prems show ?thesis by (simp add: Let_def)
    qed
  next
    case under: False
    show ?thesis
    proof (cases "int (length rows) + 1 = n")
      case True
      with under new Cons.prems show ?thesis by (simp add: Let_def)
    next
      case False
      have "\<forall>b \<in> set (batch_loop hdr n climit (hdr # (rows @ [?s]))
                         (cur + int (length ?s)) rs).
              int (length (tl b)) \<le> n"
        by (rule Cons.IH) (use False Cons.prems in simp)
      with under False Cons.prems show ?thesis by (simp add: Let_def)
    qed
  qed
qed

text \<open>
  When every record fits under the character limit together with the header
  row, no yielded batch is over the limit and none is the header row alone,
  whatever \<open>n\<close> is.
\<close>

lemma batch_loop_chars:
  assumes "\<forall>r \<in> set records. int (length hdr) + int (length (serialize_csv_record r)) \<le> climit"
    and "cur = batch_chars (hdr # rows)"
    and "rows \<noteq> [] \<longrightarrow> cur \<le> climit"
  shows "\<forall>b \<in> set (batch_loop hdr n climit (hdr # rows) cur records).
           batch_chars b \<le> climit \<and> tl b \<noteq> []"
  using assms
proof (induction records arbitrary: rows cur)
  case Nil
  then show ?case by (auto simp: batch_chars_simps)
next
  case (Cons r rs)
  let ?s = "serialize_csv_record r"
  have fit: "int (length hdr) + int (length ?s) \<le> climit" using Cons.prems(1) by simp
  have rest: "\<forall>r \<in> set rs. int (length hdr) + int (length (serialize_csv_record r)) \<le> climit"
    using Cons.prems(1) by simp
  have new: "\<forall>b \<in> set (batch_loop hdr n climit (hdr # []) (int (length hdr)) rs).
               batch_chars b \<le> climit \<and> tl b \<noteq> []"
    by (rule Cons.IH [OF rest]) (simp_all add: batch_chars_simps)
  show ?case
  proof (cases "int (length ?s) + cur > climit")
    case over: True
    then have ne: "rows \<noteq> []" using fit Cons.prems(2) by (auto simp: batch_chars_simps)
    have one: "\<forall>b \<in> set (batch_loop hdr n climit (hdr # [?s])
                              (int (length hdr) + int (length ?s)) rs).
                 batch_chars b \<le> climit \<and> tl b \<noteq> []"
      by (rule Cons.IH [OF rest]) (use fit in \<open>simp_all add: batch_chars_simps\<close>)
    from over ne new one Cons.prems(2,3) fit show ?thesis
      by (simp add: Let_def batch_chars_simps)
  next
    case under: False
    have more: "\<forall>b \<in> set (batch_loop hdr n climit (hdr # (rows @ [?s]))
                               (cur + int (length ?s)) rs).
                  batch_chars b \<le> climit \<and> tl b \<noteq> []"
      by (rule Cons.IH [OF rest]) (use under Cons.prems(2) in \<open>simp_all add: batch_chars_simps\<close>)
    from under new more Cons.prems(2) show ?thesis
      by (simp add: Let_def batch_chars_simps)
  qed
qed

text \<open>
  What holds of \<open>_batch\<close>. Every input record is in exactly one yielded batch,
  for every \<open>n\<close> and every character limit.
\<close>

lemma batch_partition:
  "(\<forall>b \<in> set (batch field_names records n char_limit). hd b = serialize_csv_record field_names) \<and>
   concat (map tl (batch field_names records n char_limit)) = map serialize_csv_record records"
  using batch_loop_partition
          [of "serialize_csv_record field_names" n char_limit "[]"
              "int (length (serialize_csv_record field_names))" records]
  by (simp add: batch_def Let_def)

text \<open>No yielded batch has more than \<open>n\<close> data rows, when \<open>n\<close> is positive.\<close>

lemma batch_rows:
  assumes "0 < n"
  shows "\<forall>b \<in> set (batch field_names records n char_limit). int (length (tl b)) \<le> n"
  using batch_loop_rows
          [OF assms, of "[]" "serialize_csv_record field_names" char_limit
              "int (length (serialize_csv_record field_names))" records] assms
  by (simp add: batch_def Let_def)

text \<open>
  No yielded batch is over the character limit, when every record fits under
  it together with the header row.
\<close>

lemma batch_chars_within_limit:
  assumes "\<forall>r \<in> set records.
             int (length (serialize_csv_record field_names)) + int (length (serialize_csv_record r))
               \<le> char_limit"
  shows "\<forall>b \<in> set (batch field_names records n char_limit).
           batch_chars b \<le> char_limit \<and> tl b \<noteq> []"
  using batch_loop_chars
          [OF assms, of "int (length (serialize_csv_record field_names))" "[]" n]
  by (simp add: batch_def Let_def batch_chars_simps)

text \<open>At \<open>n = 0\<close> the count of rows is never met, and a batch holds every record.\<close>

lemma batch_rows_zero:
  "map (\<lambda>b. length (tl b)) (batch [''a''] [[''1''], [''2''], [''3'']] 0 1000) = [3]"
  by (simp add: batch_def serialize_csv_record_def quote_field_def Let_def)

text \<open>
  Claim C2 does not hold of the code. For a record that does not fit under the
  character limit together with the header row, \<open>_batch\<close> first yields a batch
  that is the header row alone and then a batch with the record, whose
  serialized size is over the limit, whatever \<open>n\<close> is. The docstring of \<open>_batch\<close>
  says that batches do not exceed the character limit.
\<close>

theorem batch_oversized_record:
  assumes "int (length (serialize_csv_record field_names)) + int (length (serialize_csv_record r))
             > char_limit"
  shows "batch field_names [r] n char_limit =
           [[serialize_csv_record field_names],
            [serialize_csv_record field_names, serialize_csv_record r]] \<and>
         batch_chars [serialize_csv_record field_names, serialize_csv_record r] > char_limit"
  using assms
  by (simp add: batch_def Let_def batch_chars_simps add.commute)

theorem batch_oversized_record_witness:
  "batch [''a''] [[''bbbbbbbb'']] 5 10 =
     [[serialize_csv_record [''a'']],
      [serialize_csv_record [''a''], serialize_csv_record [''bbbbbbbb'']]] \<and>
   map batch_chars (batch [''a''] [[''bbbbbbbb'']] 5 10) = [5, 17] \<and>
   (17 :: int) > 10"
proof -
  have h: "int (length (serialize_csv_record [''a''])) +
           int (length (serialize_csv_record [''bbbbbbbb''])) > 10"
    by (simp add: serialize_csv_record_def quote_field_def)
  have b: "batch [''a''] [[''bbbbbbbb'']] 5 10 =
     [[serialize_csv_record [''a'']],
      [serialize_csv_record [''a''], serialize_csv_record [''bbbbbbbb'']]]"
    by (rule conjunct1 [OF batch_oversized_record [OF h]])
  have "map batch_chars [[serialize_csv_record [''a'']],
      [serialize_csv_record [''a''], serialize_csv_record [''bbbbbbbb'']]] = [5, 17]"
    by (simp add: batch_chars_def serialize_csv_record_def quote_field_def)
  with b show ?thesis by simp
qed

text \<open>
  An input where the character limit, not \<open>n\<close>, ends the first batch, and all
  three properties hold.
\<close>

lemma batch_example:
  "map batch_chars (batch [''a'', ''b''] [[''1'', ''2''], [''3'', ''4''], [''5'', ''6'']] 5 30)
     = [27, 18] \<and>
   map (\<lambda>b. length (tl b))
     (batch [''a'', ''b''] [[''1'', ''2''], [''3'', ''4''], [''5'', ''6'']] 5 30) = [2, 1]"
  by (simp add: batch_def batch_chars_def serialize_csv_record_def quote_field_def Let_def)

subsection \<open>User filter queries\<close>

text \<open>
  Claim C6 does not hold of the code for a filter that starts with its LIMIT
  clause. The search for an existing limit finds \<open>LIMIT 100\<close> and the minimum
  with the requested 50 is taken, but the substitution that strips the clause
  wants white space before the keyword and finds none: the original clause
  stays, and the query ends up with two LIMIT clauses.
\<close>

theorem generate_user_filter_query_leading_limit:
  "generate_user_filter_query ''LIMIT 100'' ''Account'' [''Id''] (Some 50) None
     = ''SELECT Id FROM Account LIMIT 100 LIMIT 50''"
  by code_simp

text \<open>The example of the spec: the minimum of the limits and the sum of the offsets.\<close>

lemma generate_user_filter_query_spec_example:
  "generate_user_filter_query ''SELECT * FROM users LIMIT 100 OFFSET 20'' ''Account'' [''Id'']
     (Some 50) (Some 10)
     = ''SELECT Id FROM Account SELECT * FROM users LIMIT 50 OFFSET 30''"
  by code_simp

subsection \<open>Select operations\<close>

lemma bulk_batch_size_pos: "0 < bulk_batch_size opt"
  by (simp add: bulk_batch_size_def DEFAULT_BULK_BATCH_SIZE_def split: option.splits)

lemma rest_batch_size_pos: "0 < rest_batch_size opt"
  by (simp add: rest_batch_size_def DEFAULT_REST_BATCH_SIZE_def MAX_REST_BATCH_SIZE_def
      split: option.splits)

text \<open>
  Claim C10. With no input record, the Bulk backend's \<open>select_records\<close> reaches
  the post-processing call with \<open>num_records\<close> never assigned and fails with
  \<open>UnboundLocalError\<close>, whatever the org, the strategy, the filter and the
  batch size the constructor stored.
\<close>

theorem bulk_select_records_empty_input:
  "bulk_select_records env strategy selection_filter sobject (bulk_batch_size opt) []
     = Inl (UnboundLocalError ''num_records'')"
  using bulk_batch_size_pos [of opt]
  by (simp add: bulk_select_records_def range0_def and_then_def)

lemma bulk_select_loop_num:
  "bulk_select_loop env f s bs tot offsets qr num = Inr (qr', num') \<Longrightarrow>
   num' = (if offsets = [] then num else Some (min bs (tot - last offsets)))"
proof (induction offsets arbitrary: qr num)
  case Nil
  then show ?case by simp
next
  case (Cons off offs)
  then show ?case
    by (auto simp: Let_def split: sum.splits if_splits)
qed

lemma range0_last:
  assumes "0 < bs" and "0 < tot"
  shows "\<exists>offsets. range0 tot bs = Inr offsets \<and> offsets \<noteq> [] \<and>
           min bs (tot - last offsets) = (tot - 1) mod bs + 1"
proof -
  let ?k = "(tot + bs - 1) div bs"
  have k1: "?k = (tot - 1) div bs + 1"
  proof -
    have e: "tot + bs - 1 = (tot - 1) + bs" using assms by simp
    have "((tot - 1) + bs) div bs = (tot - 1) div bs + 1"
      by (rule div_add_self2) (use assms in simp)
    then show ?thesis by (simp only: e)
  qed
  then have kpos: "0 < ?k" by simp
  have ne: "[0 ..< ?k] \<noteq> []" using kpos by simp
  have "last (map (\<lambda>k. k * bs) [0 ..< ?k]) = (?k - 1) * bs"
    using ne kpos by (simp add: last_map)
  then have l: "last (map (\<lambda>k. k * bs) [0 ..< ?k]) = ((tot - 1) div bs) * bs"
    using k1 by simp
  have d: "tot - ((tot - 1) div bs) * bs = (tot - 1) mod bs + 1"
  proof -
    have "(tot - 1) = ((tot - 1) div bs) * bs + (tot - 1) mod bs" by simp
    then show ?thesis using assms by linarith
  qed
  have "(tot - 1) mod bs + 1 \<le> bs" using assms by (simp add: Suc_leI)
  then have "min bs (tot - ((tot - 1) div bs) * bs) = (tot - 1) mod bs + 1"
    using d by simp
  then show ?thesis
    using assms l ne by (simp add: range0_def)
qed

text \<open>
  With at least one input record the loop runs, and \<open>num_records\<close> is bound to
  the size of the last batch when the loop ends.
\<close>

lemma bulk_select_loop_binds_num_records:
  assumes "0 < bs" and "records \<noteq> []"
    and "range0 (length records) bs = Inr offsets"
    and "bulk_select_loop env selection_filter sobject bs (length records) offsets [] None
           = Inr (qr, num)"
  shows "num = Some ((length records - 1) mod bs + 1)"
proof -
  have "0 < length records" using assms(2) by simp
  from range0_last [OF assms(1) this] assms(3)
  have "offsets \<noteq> []" "min bs (length records - last offsets) = (length records - 1) mod bs + 1"
    by auto
  with bulk_select_loop_num [OF assms(4)] show ?thesis by simp
qed

lemma select_post_process_count:
  assumes "select_post_process strategy nearest load_recs query_records n sobject = Inr (sel, msg)"
    and "strategy \<noteq> SIMILARITY" and "query_records \<noteq> []"
  shows "length sel = n \<and> msg = None"
  using assms
  by (auto simp: select_post_process_def and_then_def split: sum.splits)

lemma select_post_process_empty:
  "select_post_process strategy nearest load_recs [] n sobject =
     Inr ([], Some (''No records found for '' @ sobject @ '' in the target org.''))"
  by (simp add: select_post_process_def)

lemma select_outcome_success:
  assumes "status (select_job_result (select_outcome (sel, msg))) = SUCCESS"
  shows "(msg = None \<or> msg = Some []) \<and> sel \<noteq> [] \<and> select_results (select_outcome (sel, msg)) = sel"
  using assms by (auto simp: select_outcome_def Let_def split: if_splits)

lemma select_post_process_message:
  assumes "select_post_process strategy nearest load_recs query_records n sobject = Inr (sel, msg)"
  shows "(msg = None \<or> msg = Some []) = (query_records \<noteq> [])"
  using assms
  by (auto simp: select_post_process_def and_then_def split: sum.splits if_splits)

text \<open>
  Claim C1 does not hold of the Bulk backend. When a Bulk select under STANDARD
  or RANDOM ends with status success, the number of assignments is the size of
  the last batch of input records, \<open>(total - 1) mod batch_size + 1\<close>, not the
  total number of input records: the post-processing is given the loop-local
  \<open>num_records\<close>. The two agree only when the input fits in one batch.
\<close>

theorem bulk_select_records_processed:
  assumes "bulk_select_records env strategy selection_filter sobject bs records = Inr st"
    and "strategy \<noteq> SIMILARITY"
    and "status (select_job_result st) = SUCCESS"
  shows "records_processed (select_job_result st) = int ((length records - 1) mod bs + 1)"
proof -
  from assms(1) obtain offsets qr n r where
    r0: "range0 (length records) bs = Inr offsets"
    and lp: "bulk_select_loop env selection_filter sobject bs (length records) offsets [] None
               = Inr (qr, Some n)"
    and pp: "select_post_process strategy (closest env) records qr n sobject = Inr r"
    and st: "st = select_outcome r"
    by (auto simp: bulk_select_records_def and_then_def Let_def
        split: sum.splits prod.splits option.splits)
  obtain sel msg where r: "r = (sel, msg)" by (cases r)
  from assms(3) st r have ok: "(msg = None \<or> msg = Some [])" "sel \<noteq> []"
    "select_results st = sel"
    using select_outcome_success [of sel msg] by auto
  from pp r ok(1) have qne: "qr \<noteq> []"
    using select_post_process_message [of strategy "closest env" records qr n sobject sel msg]
    by simp
  from select_post_process_count [OF pp [unfolded r] assms(2) qne] have len: "length sel = n"
    by simp
  from bulk_select_loop_num [OF lp] have n: "offsets \<noteq> []"
    "n = min bs (length records - last offsets)"
    by (auto split: if_splits)
  have bs: "0 < bs" using r0 by (auto simp: range0_def split: if_splits)
  have tpos: "0 < length records"
    using r0 n(1) bs by (auto simp: range0_def split: if_splits)
  from range0_last [OF bs tpos] r0 n(2) have "n = (length records - 1) mod bs + 1"
    by auto
  with len ok st r show ?thesis
    by (simp add: select_outcome_def Let_def)
qed

text \<open>
  The REST backend gives the post-processing the total number of input records:
  a REST select under STANDARD or RANDOM that ends with status success has
  processed exactly one assignment per input record.
\<close>

lemma rest_select_records_processed:
  assumes "rest_select_records env strategy selection_filter sobject bs records = Inr st"
    and "strategy \<noteq> SIMILARITY"
    and "status (select_job_result st) = SUCCESS"
  shows "records_processed (select_job_result st) = int (length records)"
proof -
  from assms(1) obtain qr r where
    pp: "select_post_process strategy (closest env) records qr (length records) sobject = Inr r"
    and st: "st = select_outcome r"
    by (auto simp: rest_select_records_def and_then_def Let_def split: sum.splits)
  obtain sel msg where r: "r = (sel, msg)" by (cases r)
  from assms(3) st r have ok: "(msg = None \<or> msg = Some [])" "sel \<noteq> []"
    using select_outcome_success [of sel msg] by auto
  from pp r ok(1) have qne: "qr \<noteq> []"
    using select_post_process_message
            [of strategy "closest env" records qr "length records" sobject sel msg]
    by simp
  from select_post_process_count [OF pp [unfolded r] assms(2) qne]
  have "length sel = length records" by simp
  with ok st r show ?thesis
    by (simp add: select_outcome_def Let_def)
qed

theorem bulk_select_records_processed_witness:
  "\<exists>st. bulk_select_records (example_select_env [''001'']) STANDARD None ''Contact'' 2
           [[''a''], [''b''], [''c'']] = Inr st \<and>
        status (select_job_result st) = SUCCESS \<and>
        records_processed (select_job_result st) = 1 \<and>
        int (length [[''a''], [''b''], [''c'']]) = 3"
proof -
  let ?st = "\<lparr>select_results = [\<lparr>a_id = ''001'', a_success = True, a_created = False\<rparr>],
             select_job_result = \<lparr>status = SUCCESS, job_errors = [], records_processed = 1,
                                  total_row_errors = 0\<rparr>\<rparr>"
  have e: "bulk_select_records (example_select_env [''001'']) STANDARD None ''Contact'' 2
             [[''a''], [''b''], [''c'']] = Inr ?st"
    by code_simp
  have "records_processed (select_job_result ?st)
          = int ((length [[''a''], [''b''], [''c'']] - 1) mod 2 + 1)"
    by (rule bulk_select_records_processed [OF e]) simp_all
  then have "records_processed (select_job_result ?st) = 1"
    by simp
  with e show ?thesis by simp
qed

lemma rest_select_records_example:
  "rest_select_records (example_select_env [''001'']) STANDARD None ''Contact'' 2
     [[''a''], [''b''], [''c'']] =
   Inr \<lparr>select_results = [\<lparr>a_id = ''001'', a_success = True, a_created = False\<rparr>,
                           \<lparr>a_id = ''001'', a_success = True, a_created = False\<rparr>,
                           \<lparr>a_id = ''001'', a_success = True, a_created = False\<rparr>],
        select_job_result = \<lparr>status = SUCCESS, job_errors = [], records_processed = 3,
                             total_row_errors = 0\<rparr>\<rparr>"
  by code_simp

text \<open>
  With an empty candidate set, both backends report a job failure with the
  message and no selected record, provided the loop has run at least once in
  the Bulk backend.
\<close>

lemma rest_select_records_no_candidates:
  assumes "range0 (length records) bs = Inr offsets"
    and "rest_select_loop env selection_filter sobject bs (length records) offsets [] = Inr []"
  shows "rest_select_records env strategy selection_filter sobject bs records =
           Inr \<lparr>select_results = [],
                select_job_result =
                  \<lparr>status = JOB_FAILURE,
                   job_errors = [''No records found for '' @ sobject @ '' in the target org.''],
                   records_processed = 0, total_row_errors = 0\<rparr>\<rparr>"
  using assms
  by (simp add: rest_select_records_def and_then_def select_post_process_empty
      select_outcome_def)

lemma bulk_select_records_no_candidates:
  assumes "range0 (length records) bs = Inr offsets"
    and "bulk_select_loop env selection_filter sobject bs (length records) offsets [] None
           = Inr ([], Some n)"
  shows "bulk_select_records env strategy selection_filter sobject bs records =
           Inr \<lparr>select_results = [],
                select_job_result =
                  \<lparr>status = JOB_FAILURE,
                   job_errors = [''No records found for '' @ sobject @ '' in the target org.''],
                   records_processed = 0, total_row_errors = 0\<rparr>\<rparr>"
  using assms
  by (simp add: bulk_select_records_def and_then_def select_post_process_empty
      select_outcome_def)

text \<open>
  Claim C7 does not hold of the Bulk backend when there is no input record:
  no query runs, the candidate set is empty, and the operation raises
  \<open>UnboundLocalError\<close> instead of reporting a job failure. The REST backend, on
  the same input, reports the job failure with the message.
\<close>

theorem select_records_no_candidates_empty_input:
  "bulk_select_records (example_select_env []) STANDARD None ''Lead'' (bulk_batch_size None) []
     = Inl (UnboundLocalError ''num_records'') \<and>
   rest_select_records (example_select_env []) STANDARD None ''Lead'' (rest_batch_size None) []
     = Inr \<lparr>select_results = [],
            select_job_result =
              \<lparr>status = JOB_FAILURE,
               job_errors = [''No records found for Lead in the target org.''],
               records_processed = 0, total_row_errors = 0\<rparr>\<rparr>"
  by (simp add: bulk_select_records_def rest_select_records_def range0_def and_then_def
      bulk_batch_size_def rest_batch_size_def DEFAULT_BULK_BATCH_SIZE_def
      DEFAULT_REST_BATCH_SIZE_def MAX_REST_BATCH_SIZE_def select_post_process_def
      select_outcome_def)

subsection \<open>Further properties\<close>

text \<open>
  Query operations choose their backend the same way, with the org's record
  count of the object in place of the volume; there is no hard delete.
\<close>

lemma get_query_operation_choice:
  "get_query_operation v sobject record_counts api =
     Inr (case api of
            Some BULK \<Rightarrow> BulkApiQueryOperation
          | Some REST \<Rightarrow> (if v < 42 then BulkApiQueryOperation else RestApiQueryOperation)
          | _ \<Rightarrow> (if v < 42 \<or> (\<exists>count. map_of (rev record_counts) sobject = Some count \<and> count \<ge> 2000)
                 then BulkApiQueryOperation else RestApiQueryOperation))"
  by (auto simp: get_query_operation_def Let_def split: option.splits DataApi.splits)

text \<open>The job status depends on which batch states occur, not on their order or number.\<close>

lemma parse_job_state_set:
  "set statuses = set statuses' \<Longrightarrow>
   parse_job_state statuses msgs failures processed =
   parse_job_state statuses' msgs failures processed"
  by (simp add: parse_job_state_def Let_def)

text \<open>
  The outcomes of a select operation do carry a string as identifier, empty
  when the row is not a success.
\<close>

lemma get_query_result_id:
  "get_query_result pba row = Inr r \<Longrightarrow>
   id r = Some (if success r then a_id row else [])"
  by (auto simp: get_query_result_def and_then_def split: sum.splits)

lemma get_query_results_id:
  assumes "get_query_results pba rows = Inr rs" and "r \<in> set rs"
  shows "\<exists>s. id r = Some s \<and> (\<not> success r \<longrightarrow> s = [])"
proof -
  from map_raise_mem [OF assms(1) [unfolded get_query_results_def] assms(2)]
  obtain row where "get_query_result pba row = Inr r" by blast
  from get_query_result_id [OF this] show ?thesis by simp
qed

text \<open>The outcomes of a REST load carry the identifier the org answered, if any.\<close>

lemma rest_convert_id: "id (rest_convert operation res) = r_id res"
  by (simp add: rest_convert_def Let_def)

end
